theory Spec2Isabelle
  imports Complex_Main "HOL-Library.Sublist" "HOL-Library.Multiset" "HOL-Library.Word"
begin

section \<open>Shared data: points, tolerances, errors\<close>

text \<open>
  Doubles are modelled as \<^typ>\<open>real\<close>: rounding, infinities and NaN are outside
  the model. \<open>PointType\<close> / \<open>Vector3d\<close> is an array of three doubles.
\<close>

type_synonym PointType = "real \<times> real \<times> real"

text \<open>
  The compile-time constants of \<open>define.hpp\<close>, which is not among the sources.
  They are taken as parameters; no theorem below fixes their values.
\<close>

record constants =
  EPS1 :: real
  EPS2 :: real
  EPS3 :: real
  EPS4 :: real
  MAXD :: real
  MIND :: real
  ZEROTOL :: real
  SNAPTOL :: real

datatype error =
    NoPotentialIntersections  \<comment> \<open>\<open>std::runtime_error\<close> thrown by \<open>IsInsideTrimmedDomain\<close>\<close>
  | EraseOutOfRange           \<comment> \<open>\<open>vector::erase(begin()+N, end())\<close> with fewer than \<open>N\<close> elements\<close>
  | NoTermination             \<comment> \<open>the seeding loop of \<open>DistributeIntegrationPoints\<close> never meets its target\<close>

section \<open>Trimmed-domain oracle (\<open>embedding/trimmed_domain.cpp\<close>)\<close>

text \<open>
  The outcome of \<open>Ray_AABB_primitive::intersect(p1, p2, p3, t, u, v, back_facing, parallel)\<close>:
  the returned flag and the five output arguments (\<open>t\<close>, \<open>u\<close>, \<open>v\<close> are the fields
  \<open>ray_t\<close>, \<open>ray_u\<close>, \<open>ray_v\<close>).
\<close>

record intersection =
  intersects :: bool
  ray_t :: real
  ray_u :: real
  ray_v :: real
  back_facing :: bool
  parallel :: bool

text \<open>
  The clipped mesh, its AABB tree and the ray primitive are not among the sources. A
  trimmed domain is therefore given by the number of triangles of its clipped mesh and by
  what the three geometric calls of \<open>IsInsideTrimmedDomain\<close> answer. The ray of one cast is
  fixed by the query point and the id of the target triangle (it points from the query
  point to that triangle's centre), so each call is indexed by these two.
\<close>

record trimmed_domain =
  NumOfTriangles :: nat
  is_parallel :: "PointType \<Rightarrow> nat \<Rightarrow> bool"
    \<comment> \<open>\<open>ray.is_parallel(p1, p2, p3)\<close> for the target triangle of the cast\<close>
  Query :: "PointType \<Rightarrow> nat \<Rightarrow> nat list"
    \<comment> \<open>\<open>mTree.Query(ray)\<close>: ids of the potentially intersected triangles\<close>
  intersect :: "PointType \<Rightarrow> nat \<Rightarrow> nat \<Rightarrow> intersection"
    \<comment> \<open>\<open>ray.intersect\<close> of the cast's ray with triangle \<open>r\<close>\<close>

text \<open>The three ways the loop over the potential intersections of one cast can end.\<close>

datatype cast_result =
    OriginOnBoundary        \<comment> \<open>\<open>return false\<close> inside the loop\<close>
  | ShootsThroughBoundary   \<comment> \<open>\<open>try_next_triangle = true; break\<close>\<close>
  | Closest bool            \<comment> \<open>the loop ran to its end; the value is \<open>is_inside\<close>\<close>

fun scan_intersections ::
  "constants \<Rightarrow> intersection list \<Rightarrow> real \<Rightarrow> bool \<Rightarrow> cast_result" where
  "scan_intersections c [] min_distance is_inside = Closest is_inside"
| "scan_intersections c (h # hs) min_distance is_inside =
     (if intersects h then
        (if \<not> parallel h then
           (if ray_t h < EPS2 c then OriginOnBoundary
            else if ray_u h < 0 + EPS3 c \<or> ray_v h < 0 + EPS3 c \<or> ray_u h + ray_v h > 1 - EPS3 c
              then ShootsThroughBoundary
            else if ray_t h < min_distance
              then scan_intersections c hs (ray_t h) (back_facing h)
            else scan_intersections c hs min_distance is_inside)
         else scan_intersections c hs min_distance is_inside)
      else scan_intersections c hs min_distance is_inside)"

definition cast_ray :: "constants \<Rightarrow> trimmed_domain \<Rightarrow> PointType \<Rightarrow> nat \<Rightarrow> cast_result" where
  "cast_ray c d rPoint current_id =
     scan_intersections c (map (intersect d rPoint current_id) (Query d rPoint current_id))
       (MAXD c) False"

function try_triangles ::
  "constants \<Rightarrow> trimmed_domain \<Rightarrow> PointType \<Rightarrow> nat \<Rightarrow> error + bool" where
  "try_triangles c d rPoint current_id =
     (if current_id \<ge> NumOfTriangles d then Inr False
      else if \<not> is_parallel d rPoint current_id then
        (if Query d rPoint current_id = [] then Inl NoPotentialIntersections
         else (case cast_ray c d rPoint current_id of
                 OriginOnBoundary \<Rightarrow> Inr False
               | ShootsThroughBoundary \<Rightarrow> try_triangles c d rPoint (current_id + 1)
               | Closest is_inside \<Rightarrow> Inr is_inside))
      else try_triangles c d rPoint (current_id + 1))"
  by pat_completeness auto
termination
  by (relation "measure (\<lambda>(c, d, rPoint, current_id). NumOfTriangles d - current_id)") auto

definition IsInsideTrimmedDomain :: "constants \<Rightarrow> trimmed_domain \<Rightarrow> PointType \<Rightarrow> error + bool" where
  "IsInsideTrimmedDomain c d rPoint =
     (if NumOfTriangles d = 0 then Inr True else try_triangles c d rPoint 0)"

text \<open>The CGAL-backed variant (\<open>cgal_wrapper/cgal_trimmed_domain.cpp\<close>).\<close>

datatype Bounded_side = ON_UNBOUNDED_SIDE | ON_BOUNDARY | ON_BOUNDED_SIDE

definition CGAL_IsInsideTrimmedDomain :: "(PointType \<Rightarrow> Bounded_side) \<Rightarrow> PointType \<Rightarrow> bool" where
  "CGAL_IsInsideTrimmedDomain mpCGALInsideTest rPoint =
     (let res = mpCGALInsideTest rPoint in
      if res = ON_BOUNDED_SIDE then True
      else if res = ON_BOUNDARY then False
      else False)"

text \<open>The two kinds of degenerate intersection the loop reacts to.\<close>

definition grazes_boundary :: "constants \<Rightarrow> intersection \<Rightarrow> bool" where
  "grazes_boundary c h \<longleftrightarrow>
     intersects h \<and> \<not> parallel h \<and> (ray_u h < EPS3 c \<or> ray_v h < EPS3 c \<or> ray_u h + ray_v h > 1 - EPS3 c)"

definition origin_on_triangle :: "constants \<Rightarrow> intersection \<Rightarrow> bool" where
  "origin_on_triangle c h \<longleftrightarrow> intersects h \<and> \<not> parallel h \<and> \<bar>ray_t h\<bar> < EPS2 c"

definition degenerate_cast :: "constants \<Rightarrow> trimmed_domain \<Rightarrow> PointType \<Rightarrow> nat \<Rightarrow> bool" where
  "degenerate_cast c d rPoint i \<longleftrightarrow>
     is_parallel d rPoint i \<or>
     list_ex (\<lambda>r. grazes_boundary c (intersect d rPoint i r)) (Query d rPoint i)"

definition origin_cast :: "constants \<Rightarrow> trimmed_domain \<Rightarrow> PointType \<Rightarrow> nat \<Rightarrow> bool" where
  "origin_cast c d rPoint i \<longleftrightarrow>
     is_parallel d rPoint i \<or>
     list_ex (\<lambda>r. origin_on_triangle c (intersect d rPoint i r)) (Query d rPoint i)"


section \<open>Moment fitting and point elimination (\<open>quadrature/moment_fitting_utilities.cpp\<close>)\<close>

record IntegrationPoint =
  Point :: PointType
  Weight :: real

text \<open>
  The fields of \<open>Parameters\<close> that the moment fitting reads. \<open>Order()\<close> holds the three
  polynomial orders; they and the counts derived from them are unbounded naturals here
  (the source computes them in \<open>std::size_t\<close>, which the documented orders never
  overflow). The point distribution factor is kept as a 64-bit word because the outer
  loop doubles it.
\<close>

record Parameters =
  Order :: "nat \<times> nat \<times> nat"
  MomentFittingResidual :: real
  PointDistributionFactor :: "64 word"
  LowerBound :: PointType
  UpperBound :: PointType

text \<open>
  \<open>nnls::nnls(fitting_matrix, rConstantTerms, weights)\<close> is not among the sources. The
  fitting matrix is a function of the candidate positions (the element, the orders and
  the constant terms are fixed during one call of \<open>CreateIntegrationPointsTrimmed\<close>), so
  the solver is a parameter that maps the candidate positions to the weight vector
  (\<open>weights[i]\<close>) and to the value it returns.
\<close>

record solver =
  nnls_weights :: "PointType list \<Rightarrow> nat \<Rightarrow> real"
  nnls_residual :: "PointType list \<Rightarrow> real"

definition number_of_functions :: "Parameters \<Rightarrow> nat" where
  "number_of_functions rParam =
     (case Order rParam of (order_u, order_v, order_w) \<Rightarrow>
        (order_u * 1 + 1) * (order_v * 1 + 1) * (order_w * 1 + 1))"

definition MomentFitting1 ::
  "solver \<Rightarrow> Parameters \<Rightarrow> IntegrationPoint list \<Rightarrow> IntegrationPoint list \<times> real" where
  "MomentFitting1 nn rParam rIntegrationPoint =
     (case (LowerBound rParam, UpperBound rParam) of ((lx, ly, lz), (ux, uy, uz)) \<Rightarrow>
      let jacobian_x = \<bar>ux - lx\<bar>;
          jacobian_y = \<bar>uy - ly\<bar>;
          jacobian_z = \<bar>uz - lz\<bar>;
          positions = map Point rIntegrationPoint;
          residual = nnls_residual nn positions / real (number_of_functions rParam)
      in (map (\<lambda>i. (rIntegrationPoint ! i)
                 \<lparr>Weight := nnls_weights nn positions i / (jacobian_x * jacobian_y * jacobian_z)\<rparr>)
            [0..<length rIntegrationPoint],
          residual))"

text \<open>
  The first loop of a later round: the position of the first point of smallest weight
  (\<open>min_value_it\<close>), that weight and the largest weight, starting from \<open>1e10\<close> and
  \<open>-1e10\<close>.
\<close>

fun min_max_scan ::
  "IntegrationPoint list \<Rightarrow> nat \<Rightarrow> nat \<times> real \<times> real \<Rightarrow> nat \<times> real \<times> real" where
  "min_max_scan [] i acc = acc"
| "min_max_scan (p # ps) i (min_value_it, min_value, max_value) =
     min_max_scan ps (i + 1)
       (if Weight p < min_value then i else min_value_it,
        if Weight p < min_value then Weight p else min_value,
        if Weight p > max_value then Weight p else max_value)"

definition min_max_weights :: "IntegrationPoint list \<Rightarrow> nat \<times> real \<times> real" where
  "min_max_weights pts = min_max_scan pts 0 (0, 10 ^ 10, - (10 ^ 10))"

definition erase_at :: "nat \<Rightarrow> 'a list \<Rightarrow> 'a list" where
  "erase_at i xs = take i xs @ drop (Suc i) xs"

text \<open>
  The second loop of a later round. After \<open>erase(it)\<close> the index still advances, so the
  point that moved into position \<open>i\<close> is not looked at in this round.
\<close>

function erase_below ::
  "real \<Rightarrow> nat \<Rightarrow> IntegrationPoint list \<Rightarrow> nat \<Rightarrow> IntegrationPoint list \<times> nat" where
  "erase_below threshold i pts counter =
     (if i < length pts then
        (if Weight (pts ! i) < threshold \<and> length pts > 4
         then erase_below threshold (i + 1) (erase_at i pts) (counter + 1)
         else erase_below threshold (i + 1) pts counter)
      else (pts, counter))"
  by pat_completeness auto
termination
  by (relation "measure (\<lambda>(threshold, i, pts, counter). length pts - i)")
     (auto simp: erase_at_def)

declare erase_below.simps [simp del]

record pe_state =
  rIntegrationPoint :: "IntegrationPoint list"
  global_residual :: real
  prev_residual :: real
  number_iterations :: nat
  point_removed :: bool
  prev_solution :: "IntegrationPoint list"
  rounds :: nat  \<comment> \<open>not in the source: counts the executions of the loop body\<close>

definition maximum_iteration :: nat where
  "maximum_iteration = 1000"

text \<open>
  One execution of the body of the \<open>while\<close> loop of \<open>PointElimination\<close>. \<open>std::sort\<close> with
  the comparator \<open>a.GetWeight() > b.GetWeight()\<close> is modelled by a stable sort on the
  negated weight (the order of points of equal weight is unspecified in the source).
\<close>

definition pe_round :: "constants \<Rightarrow> solver \<Rightarrow> Parameters \<Rightarrow> pe_state \<Rightarrow> error + pe_state" where
  "pe_round c nn rParam s =
     (case MomentFitting1 nn rParam (rIntegrationPoint s) of (pts, res) \<Rightarrow>
      if number_iterations s = 0 then
        (if number_of_functions rParam \<le> length pts
         then Inr (s\<lparr>rIntegrationPoint :=
                        take (number_of_functions rParam) (sort_key (\<lambda>p. - Weight p) pts),
                     global_residual := res,
                     point_removed := True,
                     number_iterations := 1,
                     rounds := rounds s + 1\<rparr>)
         else Inl EraseOutOfRange)
      else if res < MomentFittingResidual rParam then
        (case min_max_weights pts of
           (min_value_it, min_value, max_value) \<Rightarrow>
         case erase_below (EPS1 c * max_value) 0 pts 0 of (pts2, counter) \<Rightarrow>
         let pts3 = (if counter = 0 \<and> length pts2 > 4 then erase_at min_value_it pts2 else pts2);
             removed = (counter \<noteq> 0 \<or> length pts2 > 4)
         in Inr (s\<lparr>rIntegrationPoint := pts3,
                    global_residual := res,
                    prev_residual := res,
                    point_removed := removed,
                    prev_solution := pts,
                    number_iterations :=
                      (if length pts3 \<le> 4 \<and> \<not> removed then maximum_iteration + 10
                       else number_iterations s) + 1,
                    rounds := rounds s + 1\<rparr>))
      else Inr (s\<lparr>rIntegrationPoint := pts,
                   global_residual := res,
                   point_removed := False,
                   number_iterations := number_iterations s + 1,
                   rounds := rounds s + 1\<rparr>))"

definition pe_continue :: "Parameters \<Rightarrow> pe_state \<Rightarrow> bool" where
  "pe_continue rParam s \<longleftrightarrow>
     point_removed s \<or>
     (global_residual s < MomentFittingResidual rParam \<and> number_iterations s < maximum_iteration)"

lemma length_MomentFitting1 [simp]:
  "length (fst (MomentFitting1 nn rParam pts)) = length pts"
  by (simp add: MomentFitting1_def Let_def split: prod.splits)

lemma erase_below_length:
  "erase_below thr i pts k = (pts', k') \<Longrightarrow> length pts' + k' = length pts + k"
proof (induction thr i pts k rule: erase_below.induct)
  case (1 threshold i pts counter)
  show ?case
  proof (cases "i < length pts")
    case False
    with "1.prems" show ?thesis by (simp add: erase_below.simps [of threshold i pts])
  next
    case True
    show ?thesis
    proof (cases "Weight (pts ! i) < threshold \<and> length pts > 4")
      case True
      with \<open>i < length pts\<close> "1.prems" "1.IH"(1)
      have "length pts' + k' = length (erase_at i pts) + (counter + 1)"
        by (simp add: erase_below.simps [of threshold i pts])
      with \<open>i < length pts\<close> show ?thesis
        by (simp add: erase_at_def)
    next
      case False
      with \<open>i < length pts\<close> "1.prems" "1.IH"(2) show ?thesis
        by (simp add: erase_below.simps [of threshold i pts])
    qed
  qed
qed


lemma min_max_scan_index:
  "min_max_scan ps i (mi, mn, mx) = (mi', mn', mx') \<Longrightarrow>
   mi' = mi \<or> (i \<le> mi' \<and> mi' < i + length ps)"
proof (induction ps arbitrary: i mi mn mx)
  case Nil
  then show ?case by simp
next
  case (Cons p ps)
  from Cons.prems Cons.IH [of "i + 1"] show ?case
    by (fastforce split: if_splits)
qed

lemma min_value_it_in_range:
  assumes "min_max_weights pts = (mi', mn', mx')" and "pts \<noteq> []"
  shows "mi' < length pts"
  using min_max_scan_index [OF assms(1) [unfolded min_max_weights_def]] assms(2) by auto

lemma length_erase_at:
  "i < length xs \<Longrightarrow> length (erase_at i xs) = length xs - 1"
  by (simp add: erase_at_def)

definition pe_measure :: "pe_state \<Rightarrow> nat" where
  "pe_measure s =
     2 * length (rIntegrationPoint s) + (if point_removed s then 1 else 0)
       + 2 * (maximum_iteration + 11 - number_iterations s)"

lemma pe_round_decreases:
  assumes "pe_continue rParam s" and "pe_round c nn rParam s = Inr s'"
  shows "pe_measure s' < pe_measure s"
proof -
  obtain pts res where mf: "MomentFitting1 nn rParam (rIntegrationPoint s) = (pts, res)"
    by (cases "MomentFitting1 nn rParam (rIntegrationPoint s)")
  then have len: "length pts = length (rIntegrationPoint s)"
    using length_MomentFitting1 [of nn rParam "rIntegrationPoint s"] by simp
  show ?thesis
  proof (cases "number_iterations s = 0")
    case True
    with assms(2) mf len show ?thesis
      by (auto simp: pe_round_def pe_measure_def maximum_iteration_def split: if_splits)
  next
    case ni: False
    show ?thesis
    proof (cases "res < MomentFittingResidual rParam")
      case False
      with ni assms mf len show ?thesis
        by (auto simp: pe_round_def pe_measure_def pe_continue_def maximum_iteration_def)
    next
      case True
      obtain mi mn mx where mm: "min_max_weights pts = (mi, mn, mx)"
        by (cases "min_max_weights pts")
      obtain pts2 k where eb: "erase_below (EPS1 c * mx) 0 pts 0 = (pts2, k)"
        by (cases "erase_below (EPS1 c * mx) 0 pts 0")
      from erase_below_length [OF eb] have l2: "length pts2 + k = length pts"
        by simp
      show ?thesis
      proof (cases "k = 0 \<and> length pts2 > 4")
        case True
        with l2 have "pts \<noteq> []" and l: "length pts2 = length pts"
          by auto
        with min_value_it_in_range [OF mm] have "length (erase_at mi pts2) = length pts2 - 1"
          by (simp add: length_erase_at)
        with True ni \<open>res < _\<close> assms mf len mm eb l show ?thesis
          by (auto simp: pe_round_def pe_measure_def pe_continue_def maximum_iteration_def Let_def)
      next
        case False
        with ni \<open>res < _\<close> assms mf len mm eb l2 show ?thesis
          by (auto simp: pe_round_def pe_measure_def pe_continue_def maximum_iteration_def Let_def)
      qed
    qed
  qed
qed


function pe_loop :: "constants \<Rightarrow> solver \<Rightarrow> Parameters \<Rightarrow> pe_state \<Rightarrow> error + pe_state" where
  "pe_loop c nn rParam s =
     (if pe_continue rParam s then
        (case pe_round c nn rParam s of
           Inl e \<Rightarrow> Inl e
         | Inr s' \<Rightarrow> pe_loop c nn rParam s')
      else Inr s)"
  by pat_completeness auto
termination
  by (relation "measure (\<lambda>(c, nn, rParam, s). pe_measure s)")
     (auto dest: pe_round_decreases)

declare pe_loop.simps [simp del]


text \<open>
  What \<open>PointElimination\<close> leaves behind: the value it returns, the candidate vector it
  was given by reference, and the integration points of the element.
\<close>

record pe_result =
  pe_residual :: real
  pe_candidates :: "IntegrationPoint list"
  pe_reduced_points :: "IntegrationPoint list"
  pe_rounds :: nat

definition pe_init :: "constants \<Rightarrow> IntegrationPoint list \<Rightarrow> pe_state" where
  "pe_init c pts =
     \<lparr>rIntegrationPoint = pts, global_residual = MIND c, prev_residual = 0,
      number_iterations = 0, point_removed = False, prev_solution = [], rounds = 0\<rparr>"

definition PointElimination ::
  "constants \<Rightarrow> solver \<Rightarrow> Parameters \<Rightarrow> IntegrationPoint list \<Rightarrow> IntegrationPoint list
     \<Rightarrow> error + pe_result" where
  "PointElimination c nn rParam pts reduced_points =
     (case pe_loop c nn rParam (pe_init c pts) of
        Inl e \<Rightarrow> Inl e
      | Inr s \<Rightarrow>
          if global_residual s \<ge> MomentFittingResidual rParam \<and> length (prev_solution s) > 0
             \<and> number_iterations s < maximum_iteration
          then Inr \<lparr>pe_residual = prev_residual s,
                    pe_candidates = rIntegrationPoint s,
                    pe_reduced_points =
                      filter (\<lambda>point. \<not> Weight point < EPS4 c) (prev_solution s @ reduced_points),
                    pe_rounds = rounds s\<rparr>
          else Inr \<lparr>pe_residual = global_residual s,
                    pe_candidates = rIntegrationPoint s,
                    pe_reduced_points =
                      filter (\<lambda>point. \<not> Weight point < EPS4 c) (rIntegrationPoint s @ reduced_points),
                    pe_rounds = rounds s\<rparr>)"

text \<open>
  The octree (\<open>embedding/octree.h\<close>) is not among the sources; its three operations used
  by \<open>DistributeIntegrationPoints\<close> are parameters over an abstract octree state.
  \<open>AddIntegrationPoints\<close> gives the points the octree appends to the (just cleared) vector.
\<close>

record 'o octree_ops =
  MaxRefinementLevel :: "'o \<Rightarrow> nat"
  Refine :: "nat \<Rightarrow> nat \<Rightarrow> 'o \<Rightarrow> 'o"
  AddIntegrationPoints :: "'o \<Rightarrow> nat \<times> nat \<times> nat \<Rightarrow> IntegrationPoint list"

text \<open>
  The seeding loop has no bound of its own: it ends only when the octree yields enough
  points. Not returning is the value \<open>None\<close>.
\<close>

partial_function (option) distribute_loop ::
  "'o octree_ops \<Rightarrow> Parameters \<Rightarrow> nat \<Rightarrow> 'o \<Rightarrow> IntegrationPoint list \<Rightarrow> nat
     \<Rightarrow> ('o \<times> IntegrationPoint list) option" where
  "distribute_loop ops rParam MinNumPoints rOctree pts refinemen_level =
     (if length pts < MinNumPoints then
        (let rOctree' = Refine ops (min refinemen_level 4) refinemen_level rOctree in
         distribute_loop ops rParam MinNumPoints rOctree'
           (case Order rParam of (order_u, order_v, order_w) \<Rightarrow>
              AddIntegrationPoints ops rOctree' (order_u + 1, order_v + 1, order_w + 1))
           (refinemen_level + 1))
      else Some (rOctree, pts))"

declare distribute_loop.simps [code]

definition DistributeIntegrationPoints ::
  "'o octree_ops \<Rightarrow> Parameters \<Rightarrow> 'o \<Rightarrow> IntegrationPoint list \<Rightarrow> nat
     \<Rightarrow> ('o \<times> IntegrationPoint list) option" where
  "DistributeIntegrationPoints ops rParam rOctree pts MinNumPoints =
     distribute_loop ops rParam MinNumPoints rOctree pts (max (MaxRefinementLevel ops rOctree) 1)"

record 'o cipt_state =
  residual :: real
  iteration :: nat
  point_distribution_factor :: "64 word"
  integration_points :: "IntegrationPoint list"
  element_points :: "IntegrationPoint list"  \<comment> \<open>\<open>rElement.GetIntegrationPoints()\<close>\<close>
  octree :: 'o

text \<open>One execution of the body of the outer loop of \<open>CreateIntegrationPointsTrimmed\<close>.\<close>

definition cipt_body ::
  "constants \<Rightarrow> solver \<Rightarrow> 'o octree_ops \<Rightarrow> Parameters \<Rightarrow> 'o cipt_state \<Rightarrow> error + 'o cipt_state" where
  "cipt_body c nn ops rParam s =
     (let min_num_points =
            unat (word_of_nat (number_of_functions rParam) * point_distribution_factor s) in
      case DistributeIntegrationPoints ops rParam (octree s) (integration_points s) min_num_points of
        None \<Rightarrow> Inl NoTermination
      | Some (rOctree, seeded) \<Rightarrow>
          (case PointElimination c nn rParam (seeded @ element_points s) [] of
             Inl e \<Rightarrow> Inl e
           | Inr r \<Rightarrow>
               Inr (s\<lparr>residual := pe_residual r,
                      iteration := iteration s + 1,
                      point_distribution_factor := point_distribution_factor s * 2,
                      integration_points := pe_candidates r,
                      element_points :=
                        (if pe_residual r > 1 / 100 then [] else pe_reduced_points r),
                      octree := rOctree\<rparr>)))"

lemma cipt_body_iteration:
  "cipt_body c nn ops rParam s = Inr s' \<Longrightarrow> iteration s' = iteration s + 1"
  by (auto simp: cipt_body_def Let_def split: option.splits sum.splits prod.splits)

function cipt_loop ::
  "constants \<Rightarrow> solver \<Rightarrow> 'o octree_ops \<Rightarrow> Parameters \<Rightarrow> 'o cipt_state \<Rightarrow> error + 'o cipt_state" where
  "cipt_loop c nn ops rParam s =
     (if residual s > MomentFittingResidual rParam \<and> iteration s < 4 then
        (case cipt_body c nn ops rParam s of
           Inl e \<Rightarrow> Inl e
         | Inr s' \<Rightarrow> cipt_loop c nn ops rParam s')
      else Inr s)"
  by pat_completeness auto
termination
  by (relation "measure (\<lambda>(c, nn, ops, rParam, s). 4 - iteration s)")
     (auto dest: cipt_body_iteration)

declare cipt_loop.simps [simp del]

definition CreateIntegrationPointsTrimmed ::
  "constants \<Rightarrow> solver \<Rightarrow> 'o octree_ops \<Rightarrow> Parameters \<Rightarrow> 'o \<Rightarrow> IntegrationPoint list
     \<Rightarrow> error + 'o cipt_state" where
  "CreateIntegrationPointsTrimmed c nn ops rParam rOctree old_points =
     cipt_loop c nn ops rParam
       \<lparr>residual = MAXD c, iteration = 0,
        point_distribution_factor = PointDistributionFactor rParam,
        integration_points = [], element_points = old_points, octree = rOctree\<rparr>"






section \<open>Tensor-product rule of an untrimmed element (\<open>quadrature/single_element.hpp\<close>)\<close>

text \<open>
  \<open>IntegrationPointFactory1D::GetGauss(order, method)\<close> is not among the sources: the
  table of one-dimensional rules is a parameter. An entry is a pair (position, weight) on
  the unit interval, \<open>[u][0]\<close> and \<open>[u][1]\<close> in the source.
\<close>

definition AssembleIPs ::
  "(nat \<Rightarrow> 'm \<Rightarrow> (real \<times> real) list) \<Rightarrow> PointType \<Rightarrow> PointType \<Rightarrow> nat \<times> nat \<times> nat \<Rightarrow> 'm
     \<Rightarrow> IntegrationPoint list" where
  "AssembleIPs GetGauss rLowerBoundParam rUpperBoundParam rOrder Method =
     (case (rLowerBoundParam, rUpperBoundParam, rOrder) of
        ((l0, l1, l2), (u0, u1, u2), (order_u, order_v, order_w)) \<Rightarrow>
      let r_ip_list_u = GetGauss order_u Method;
          r_ip_list_v = GetGauss order_v Method;
          r_ip_list_w = GetGauss order_w Method;
          length_u = \<bar>u0 - l0\<bar>;
          length_v = \<bar>u1 - l1\<bar>;
          length_w = \<bar>u2 - l2\<bar>
      in concat (map (\<lambda>pu. concat (map (\<lambda>pv. map (\<lambda>pw.
             \<lparr>Point = (l0 + length_u * fst pu, l1 + length_v * fst pv, l2 + length_w * fst pw),
              Weight = snd pu * length_u * snd pv * length_v * snd pw * length_w\<rparr>)
           r_ip_list_w) r_ip_list_v)) r_ip_list_u))"

section \<open>Pipeline driver (\<open>QuESo::Compute\<close>)\<close>

datatype IntersectionStatus = Inside | Outside | Trimmed

record 'd Element =
  ElementId :: nat
  BoundsXYZ :: "PointType \<times> PointType"
  BoundsUVW :: "PointType \<times> PointType"
  IsTrimmed :: bool
  pTrimmedDomain :: "'d option"
  IntegrationPoints :: "IntegrationPoint list"

text \<open>
  What \<open>Compute\<close> reads from its object: the parameters, the classification vector, the
  mapper, and the two collaborators that are not among the sources, the B-Rep operator's
  \<open>pGetTrimmedDomain\<close> (\<open>None\<close> is the null pointer of a rejected cell) and
  \<open>QuadratureTrimmedElement::AssembleIPs\<close>, which gives the points it leaves on the
  element or throws.
\<close>

record ('d, 'm) compute_env =
  global_number_of_elements :: nat
  embedding_flag :: bool
  ggq_rule_ise_used :: bool
  polynomial_order :: "nat \<times> nat \<times> nat"
  integration_method :: 'm
  p_classifications :: "nat \<Rightarrow> IntersectionStatus"
  GetBoundingBoxXYZFromIndex :: "nat \<Rightarrow> PointType \<times> PointType"
  GetBoundingBoxUVWFromIndex :: "nat \<Rightarrow> PointType \<times> PointType"
  pGetTrimmedDomain :: "PointType \<times> PointType \<Rightarrow> 'd option"
  TrimmedAssembleIPs :: "'d Element \<Rightarrow> error + IntegrationPoint list"
  GetGauss :: "nat \<Rightarrow> 'm \<Rightarrow> (real \<times> real) list"

text \<open>
  The body of the first loop of \<open>Compute\<close> for one cell index. The element container is
  the list of the elements added so far. The loop is an OpenMP \<open>parallel for\<close> whose only
  shared write is the insertion, in a critical section; it is modelled in index order.
\<close>

definition compute_element ::
  "('d, 'm) compute_env \<Rightarrow> nat \<Rightarrow> 'd Element list \<Rightarrow> error + 'd Element list" where
  "compute_element env index container =
     (let status = (if embedding_flag env then p_classifications env index else Inside) in
      if status = Inside \<or> status = Trimmed then
        (let bounding_box_xyz = GetBoundingBoxXYZFromIndex env index;
             bounding_box_uvw = GetBoundingBoxUVWFromIndex env index;
             new_element = \<lparr>ElementId = index + 1, BoundsXYZ = bounding_box_xyz,
                            BoundsUVW = bounding_box_uvw, IsTrimmed = False,
                            pTrimmedDomain = None, IntegrationPoints = []\<rparr>
         in if status = Trimmed then
              (case pGetTrimmedDomain env bounding_box_xyz of
                 None \<Rightarrow> Inr container
               | Some p_trimmed_domain \<Rightarrow>
                   (let trimmed_element =
                          new_element\<lparr>IsTrimmed := True, pTrimmedDomain := Some p_trimmed_domain\<rparr>
                    in case TrimmedAssembleIPs env trimmed_element of
                         Inl e \<Rightarrow> Inl e
                       | Inr points \<Rightarrow>
                           if length points = 0 then Inr container
                           else Inr (container @ [trimmed_element\<lparr>IntegrationPoints := points\<rparr>])))
            else
              Inr (container @
                [if \<not> ggq_rule_ise_used env
                 then new_element\<lparr>IntegrationPoints :=
                        AssembleIPs (GetGauss env) (fst bounding_box_uvw) (snd bounding_box_uvw)
                          (polynomial_order env) (integration_method env)\<rparr>
                 else new_element]))
      else Inr container)"

fun compute_loop ::
  "('d, 'm) compute_env \<Rightarrow> nat list \<Rightarrow> 'd Element list \<Rightarrow> error + 'd Element list" where
  "compute_loop env [] container = Inr container"
| "compute_loop env (index # indices) container =
     (case compute_element env index container of
        Inl e \<Rightarrow> Inl e
      | Inr container' \<Rightarrow> compute_loop env indices container')"

definition Compute :: "('d, 'm) compute_env \<Rightarrow> error + 'd Element list" where
  "Compute env = compute_loop env [0..<global_number_of_elements env] []"

section \<open>STL loader: format detection (\<open>io/io_utilities.cpp\<close>)\<close>

text \<open>
  A file is the list of its bytes. \<open>::tolower\<close> is taken in the C locale: it maps the
  letters \<open>A\<close>..\<open>Z\<close> to \<open>a\<close>..\<open>z\<close> and leaves every other byte alone.
\<close>

definition tolower :: "char \<Rightarrow> char" where
  "tolower ch =
     (let n = (of_char ch :: nat) in if 65 \<le> n \<and> n \<le> 90 then char_of (n + 32) else ch)"

text \<open>
  \<open>std::string::find(needle)\<close> from position 0: the index of the first occurrence, or
  \<open>None\<close> for \<open>npos\<close>.
\<close>

fun find_from :: "string \<Rightarrow> string \<Rightarrow> nat \<Rightarrow> nat option" where
  "find_from needle [] i = (if needle = [] then Some i else None)"
| "find_from needle (ch # rest) i =
     (if prefix needle (ch # rest) then Some i else find_from needle rest (i + 1))"

definition find :: "string \<Rightarrow> string \<Rightarrow> nat option" where
  "find message needle = find_from needle message 0"

text \<open>
  \<open>STLIsInASCIIFormat\<close> for a file that can be opened: \<open>file.read(chars, 256)\<close> delivers
  the first \<open>gcount\<close> bytes, at most 256.
\<close>

definition STLIsInASCIIFormat :: "string \<Rightarrow> bool" where
  "STLIsInASCIIFormat file =
     (let message = map tolower (take 256 file) in
      find message ''solid'' \<noteq> None \<and>
      find message ''normal'' \<noteq> None \<and>
      find message ''facet'' \<noteq> None \<and>
      find message [CHR 0x0A] \<noteq> None)"

text \<open>
  \<open>ReadMeshFromSTL\<close> hands the file to one of the two parsers; the parsers are parameters
  here.
\<close>

definition ReadMeshFromSTL :: "(string \<Rightarrow> 'r) \<Rightarrow> (string \<Rightarrow> 'r) \<Rightarrow> string \<Rightarrow> 'r" where
  "ReadMeshFromSTL ReadMeshFromSTL_Ascii ReadMeshFromSTL_Binary file =
     (if STLIsInASCIIFormat file then ReadMeshFromSTL_Ascii file
      else ReadMeshFromSTL_Binary file)"

text \<open>
  The criterion in the words of the specification: the first at most \<open>n\<close> bytes contain,
  case-insensitively, the substrings \<open>solid\<close>, \<open>facet\<close>, \<open>normal\<close> and a newline.
\<close>

definition header_says_ascii :: "nat \<Rightarrow> string \<Rightarrow> bool" where
  "header_says_ascii n file \<longleftrightarrow>
     (let header = map tolower (take n file) in
      sublist ''solid'' header \<and> sublist ''facet'' header \<and> sublist ''normal'' header \<and>
      sublist [CHR 0x0A] header)"

datatype stl_format = Ascii | Binary

section \<open>STL loader: facets and vertices (\<open>io/io_utilities.cpp\<close>)\<close>












text \<open>A facet as both parsers deliver it: the stored normal and the three vertices.\<close>

record facet =
  stored_normal :: PointType
  vertex1 :: PointType
  vertex2 :: PointType
  vertex3 :: PointType









section \<open>Sample inputs\<close>

text \<open>Sample inputs for the oracle, used to exercise the theorems below.\<close>

definition sample_constants :: constants where
  "sample_constants =
     \<lparr>EPS1 = 1 / 10 ^ 12, EPS2 = 1 / 10 ^ 10, EPS3 = 1 / 10 ^ 10, EPS4 = 1 / 10 ^ 8,
      MAXD = 10 ^ 308, MIND = 1 / 10 ^ 308, ZEROTOL = 1 / 10 ^ 14, SNAPTOL = 1 / 10 ^ 12\<rparr>"

definition miss :: intersection where
  "miss = \<lparr>intersects = False, ray_t = 0, ray_u = 0, ray_v = 0, back_facing = False, parallel = False\<rparr>"

definition graze :: intersection where
  "graze = \<lparr>intersects = True, ray_t = 1, ray_u = 0, ray_v = 1 / 2, back_facing = True, parallel = False\<rparr>"

definition touch :: intersection where
  "touch = \<lparr>intersects = True, ray_t = 0, ray_u = 1 / 4, ray_v = 1 / 4, back_facing = True, parallel = False\<rparr>"

definition grazing_domain :: trimmed_domain where
  "grazing_domain =
     \<lparr>NumOfTriangles = 2,
      is_parallel = (\<lambda>p i. i = 0),
      Query = (\<lambda>p i. [0, 1]),
      intersect = (\<lambda>p i r. if r = 0 then miss else graze)\<rparr>"

definition touching_domain :: trimmed_domain where
  "touching_domain =
     \<lparr>NumOfTriangles = 2,
      is_parallel = (\<lambda>p i. False),
      Query = (\<lambda>p i. [1, 0]),
      intersect = (\<lambda>p i r. if r = 0 then touch else miss)\<rparr>"

definition empty_domain :: trimmed_domain where
  "empty_domain =
     \<lparr>NumOfTriangles = 0,
      is_parallel = (\<lambda>p i. False),
      Query = (\<lambda>p i. []),
      intersect = (\<lambda>p i r. miss)\<rparr>"

definition sample_parameters :: Parameters where
  "sample_parameters =
     \<lparr>Order = (1, 1, 1), MomentFittingResidual = 1 / 10 ^ 8, PointDistributionFactor = 1,
      LowerBound = (0, 0, 0), UpperBound = (1, 1, 1)\<rparr>"

text \<open>A solver that gives every candidate its x coordinate as weight and fits exactly.\<close>

definition sample_solver :: solver where
  "sample_solver =
     \<lparr>nnls_weights = (\<lambda>positions i. fst (positions ! i)), nnls_residual = (\<lambda>positions. 0)\<rparr>"

definition ip :: "real \<Rightarrow> IntegrationPoint" where
  "ip x = \<lparr>Point = (x, 0, 0), Weight = 1\<rparr>"

definition sample_points :: "IntegrationPoint list" where
  "sample_points = map ip [1, 0, 1, 0, 1, 1, 0, 0]"

definition sample_octree :: "nat octree_ops" where
  "sample_octree =
     \<lparr>MaxRefinementLevel = (\<lambda>level. level),
      Refine = (\<lambda>min_level max_level level. level + 1),
      AddIntegrationPoints = (\<lambda>level orders. sample_points)\<rparr>"


definition unit_gauss :: "nat \<Rightarrow> unit \<Rightarrow> (real \<times> real) list" where
  "unit_gauss order method = [(1 / 4, 1 / 2), (3 / 4, 1 / 2)]"

text \<open>
  A grid of three cells: one inside, one trimmed whose moment fitting leaves no point, one
  trimmed with two points.
\<close>

definition sample_env :: "(nat, unit) compute_env" where
  "sample_env =
     \<lparr>global_number_of_elements = 3,
      embedding_flag = True,
      ggq_rule_ise_used = False,
      polynomial_order = (1, 1, 1),
      integration_method = (),
      p_classifications = (\<lambda>index. if index = 0 then Inside else Trimmed),
      GetBoundingBoxXYZFromIndex = (\<lambda>index. ((real index, 0, 0), (real index + 1, 1, 1))),
      GetBoundingBoxUVWFromIndex = (\<lambda>index. ((real index, 0, 0), (real index + 1, 1, 1))),
      pGetTrimmedDomain = (\<lambda>box. Some 0),
      TrimmedAssembleIPs = (\<lambda>element. Inr (if ElementId element = 2 then [] else [ip 1, ip 1])),
      GetGauss = unit_gauss\<rparr>"

text \<open>A solver that never fits: the residual stays above every target.\<close>

definition failing_solver :: solver where
  "failing_solver =
     \<lparr>nnls_weights = (\<lambda>positions i. 1), nnls_residual = (\<lambda>positions. 1)\<rparr>"

text \<open>An octree whose yield grows by eight points with every refinement.\<close>

definition growing_octree :: "nat octree_ops" where
  "growing_octree =
     \<lparr>MaxRefinementLevel = (\<lambda>level. level),
      Refine = (\<lambda>min_level max_level level. level + 1),
      AddIntegrationPoints = (\<lambda>level orders. concat (replicate level sample_points))\<rparr>"

definition nondegenerate :: "PointType \<Rightarrow> PointType \<Rightarrow> bool" where
  "nondegenerate lower upper =
     (case (lower, upper) of ((l0, l1, l2), (u0, u1, u2)) \<Rightarrow> l0 \<noteq> u0 \<and> l1 \<noteq> u1 \<and> l2 \<noteq> u2)"

text \<open>An ASCII file whose first line is indented by eighty blanks, and an ordinary one.\<close>

definition indented_stl :: string where
  "indented_stl = replicate 80 CHR '' '' @ ''solid facet normal 0 0 1'' @ [CHR 0x0A]"

definition plain_stl :: string where
  "plain_stl = ''SOLID cube'' @ [CHR 0x0A] @ ''Facet Normal 0 0 1'' @ [CHR 0x0A]"

definition long_stl :: string where
  "long_stl = plain_stl @ replicate 300 CHR '' ''"








section \<open>Properties of the trimmed-domain oracle\<close>

lemma scan_never_closest:
  "list_ex (\<lambda>h. grazes_boundary c h \<or> origin_on_triangle c h) hs \<Longrightarrow>
   scan_intersections c hs m b \<noteq> Closest b'"
proof (induction hs arbitrary: m b)
  case Nil
  then show ?case by simp
next
  case (Cons h hs)
  show ?case
  proof (cases "grazes_boundary c h \<or> origin_on_triangle c h")
    case True
    then show ?thesis
      by (auto simp: grazes_boundary_def origin_on_triangle_def)
  next
    case False
    with Cons.prems have "list_ex (\<lambda>h. grazes_boundary c h \<or> origin_on_triangle c h) hs"
      by simp
    then show ?thesis
      using Cons.IH by simp
  qed
qed

lemma cast_never_closest:
  assumes "list_ex (\<lambda>r. grazes_boundary c (intersect d p i r) \<or>
                         origin_on_triangle c (intersect d p i r)) (Query d p i)"
  shows "cast_ray c d p i \<noteq> Closest b"
proof -
  from assms have
    "list_ex (\<lambda>h. grazes_boundary c h \<or> origin_on_triangle c h)
       (map (intersect d p i) (Query d p i))"
    by (simp add: list_ex_iff)
  then show ?thesis
    unfolding cast_ray_def by (rule scan_never_closest)
qed

lemma try_triangles_all_degenerate:
  "(\<And>i. current_id \<le> i \<Longrightarrow> i < NumOfTriangles d \<Longrightarrow>
        degenerate_cast c d p i \<or> origin_cast c d p i) \<Longrightarrow>
   try_triangles c d p current_id = Inr False"
proof (induction c d p current_id rule: try_triangles.induct)
  case (1 c d rPoint current_id)
  show ?case
  proof (cases "current_id \<ge> NumOfTriangles d")
    case True
    then show ?thesis by simp
  next
    case inrange: False
    then have deg: "degenerate_cast c d rPoint current_id \<or> origin_cast c d rPoint current_id"
      using "1.prems" by simp
    have later: "\<And>i. current_id + 1 \<le> i \<Longrightarrow> i < NumOfTriangles d \<Longrightarrow>
        degenerate_cast c d rPoint i \<or> origin_cast c d rPoint i"
      using "1.prems" by simp
    show ?thesis
    proof (cases "is_parallel d rPoint current_id")
      case True
      with inrange "1.IH"(2) later show ?thesis by simp
    next
      case notpar: False
      with deg have ex: "list_ex (\<lambda>r. grazes_boundary c (intersect d rPoint current_id r) \<or>
            origin_on_triangle c (intersect d rPoint current_id r)) (Query d rPoint current_id)"
        by (auto simp: degenerate_cast_def origin_cast_def list_ex_iff)
      then have nonempty: "Query d rPoint current_id \<noteq> []"
        by auto
      have nc: "cast_ray c d rPoint current_id \<noteq> Closest b" for b
        using ex by (rule cast_never_closest)
      show ?thesis
      proof (cases "cast_ray c d rPoint current_id")
        case OriginOnBoundary
        with inrange notpar nonempty show ?thesis by simp
      next
        case ShootsThroughBoundary
        with inrange notpar nonempty "1.IH"(1) later show ?thesis by simp
      next
        case (Closest b)
        with nc [of b] show ?thesis by simp
      qed
    qed
  qed
qed

text \<open>
  C10. If the clipped mesh of a trimmed domain has no triangle, \<open>IsInsideTrimmedDomain\<close>
  returns true for every query point: it neither throws nor classifies the point Outside.
\<close>

theorem C10_empty_mesh_is_inside:
  "NumOfTriangles d = 0 \<Longrightarrow> IsInsideTrimmedDomain c d rPoint = Inr True"
  by (simp add: IsInsideTrimmedDomain_def)

theorem C10_empty_mesh_is_inside_witness:
  "NumOfTriangles empty_domain = 0 \<and>
   IsInsideTrimmedDomain sample_constants empty_domain (0, 0, 0) = Inr True"
proof -
  have h: "NumOfTriangles empty_domain = 0"
    by (simp add: empty_domain_def)
  from C10_empty_mesh_is_inside [OF h] h show ?thesis
    by simp
qed

text \<open>
  C6. For a trimmed domain with at least one triangle and any query point: if every
  candidate target triangle gives a degenerate cast (the ray is parallel to the target, or
  one of its intersections grazes a triangle boundary within \<open>EPS3\<close>), the point is
  classified Outside; if the origin lies on a triangle (every cast that is made meets a
  triangle at \<open>\<bar>t\<bar> < EPS2\<close>), the point is reported as not inside; and the CGAL variant
  reports a point on the boundary as not inside. In none of these cases does the native
  oracle throw.
\<close>

theorem C6_degenerate_casts_are_outside:
  assumes "0 < NumOfTriangles d"
  shows "((\<forall>i<NumOfTriangles d. degenerate_cast c d p i) \<longrightarrow>
            IsInsideTrimmedDomain c d p = Inr False) \<and>
         ((\<forall>i<NumOfTriangles d. origin_cast c d p i) \<longrightarrow>
            IsInsideTrimmedDomain c d p = Inr False) \<and>
         (mpCGALInsideTest p = ON_BOUNDARY \<longrightarrow>
            CGAL_IsInsideTrimmedDomain mpCGALInsideTest p = False)"
proof (intro conjI impI)
  assume "\<forall>i<NumOfTriangles d. degenerate_cast c d p i"
  then have "try_triangles c d p 0 = Inr False"
    by (intro try_triangles_all_degenerate) simp
  with assms show "IsInsideTrimmedDomain c d p = Inr False"
    by (simp add: IsInsideTrimmedDomain_def)
next
  assume "\<forall>i<NumOfTriangles d. origin_cast c d p i"
  then have "try_triangles c d p 0 = Inr False"
    by (intro try_triangles_all_degenerate) simp
  with assms show "IsInsideTrimmedDomain c d p = Inr False"
    by (simp add: IsInsideTrimmedDomain_def)
next
  assume "mpCGALInsideTest p = ON_BOUNDARY"
  then show "CGAL_IsInsideTrimmedDomain mpCGALInsideTest p = False"
    by (simp add: CGAL_IsInsideTrimmedDomain_def)
qed

theorem C6_degenerate_casts_are_outside_witness:
  "0 < NumOfTriangles grazing_domain \<and>
   degenerate_cast sample_constants grazing_domain (0, 0, 0) 0 \<and>
   degenerate_cast sample_constants grazing_domain (0, 0, 0) 1 \<and>
   IsInsideTrimmedDomain sample_constants grazing_domain (0, 0, 0) = Inr False \<and>
   0 < NumOfTriangles touching_domain \<and>
   origin_cast sample_constants touching_domain (0, 0, 0) 0 \<and>
   origin_cast sample_constants touching_domain (0, 0, 0) 1 \<and>
   IsInsideTrimmedDomain sample_constants touching_domain (0, 0, 0) = Inr False \<and>
   CGAL_IsInsideTrimmedDomain (\<lambda>p. ON_BOUNDARY) (0, 0, 0) = False"
proof -
  have n1: "0 < NumOfTriangles grazing_domain"
    by (simp add: grazing_domain_def)
  have d0: "degenerate_cast sample_constants grazing_domain (0, 0, 0) 0"
    by (simp add: degenerate_cast_def grazing_domain_def)
  have d1: "degenerate_cast sample_constants grazing_domain (0, 0, 0) 1"
    by (simp add: degenerate_cast_def grazing_domain_def grazes_boundary_def graze_def
        sample_constants_def)
  have all1: "\<forall>i<NumOfTriangles grazing_domain. degenerate_cast sample_constants grazing_domain (0, 0, 0) i"
  proof (intro allI impI)
    fix i assume "i < NumOfTriangles grazing_domain"
    then have "i = 0 \<or> i = 1"
      by (auto simp: grazing_domain_def)
    with d0 d1 show "degenerate_cast sample_constants grazing_domain (0, 0, 0) i"
      by auto
  qed
  have n2: "0 < NumOfTriangles touching_domain"
    by (simp add: touching_domain_def)
  have o: "origin_cast sample_constants touching_domain (0, 0, 0) i" for i
    by (simp add: origin_cast_def touching_domain_def origin_on_triangle_def touch_def
        sample_constants_def)
  have b: "(\<lambda>p::PointType. ON_BOUNDARY) (0, 0, 0) = ON_BOUNDARY"
    by simp
  from C6_degenerate_casts_are_outside [OF n1, of sample_constants "(0, 0, 0)"] all1
  have r1: "IsInsideTrimmedDomain sample_constants grazing_domain (0, 0, 0) = Inr False"
    by blast
  from C6_degenerate_casts_are_outside [OF n2, of sample_constants "(0, 0, 0)"] o
  have r2: "IsInsideTrimmedDomain sample_constants touching_domain (0, 0, 0) = Inr False"
    by blast
  from C6_degenerate_casts_are_outside [OF n1, of sample_constants "(0, 0, 0)" "\<lambda>p. ON_BOUNDARY"]
  have r3: "CGAL_IsInsideTrimmedDomain (\<lambda>p. ON_BOUNDARY) (0, 0, 0) = False"
    by blast
  from n1 d0 d1 r1 n2 o r2 r3 show ?thesis
    by blast
qed

section \<open>Properties of the point elimination\<close>


lemma erase_below_small:
  "length pts \<le> 4 \<Longrightarrow> erase_below thr i pts k = (pts, k)"
proof (induction thr i pts k rule: erase_below.induct)
  case (1 threshold i pts counter)
  then show ?case
    by (cases "i < length pts") (simp_all add: erase_below.simps [of threshold i pts])
qed


lemma pe_round_first:
  assumes "number_iterations s = 0" and "pe_round c nn rParam s = Inr s'"
  shows "length (rIntegrationPoint s') = number_of_functions rParam"
    and "prev_solution s' = prev_solution s"
    and "number_iterations s' = 1"
    and "rounds s' = rounds s + 1"
    and "point_removed s'"
    and "number_of_functions rParam \<le> length (rIntegrationPoint s)"
proof -
  obtain pts res where mf: "MomentFitting1 nn rParam (rIntegrationPoint s) = (pts, res)"
    by (cases "MomentFitting1 nn rParam (rIntegrationPoint s)")
  then have len: "length pts = length (rIntegrationPoint s)"
    using length_MomentFitting1 [of nn rParam "rIntegrationPoint s"] by simp
  from assms mf len show "length (rIntegrationPoint s') = number_of_functions rParam"
    and "prev_solution s' = prev_solution s"
    and "number_iterations s' = 1"
    and "rounds s' = rounds s + 1"
    and "point_removed s'"
    and "number_of_functions rParam \<le> length (rIntegrationPoint s)"
    by (auto simp: pe_round_def split: if_splits)
qed

lemma pe_round_later:
  assumes "number_iterations s \<noteq> 0" and "pe_round c nn rParam s = Inr s'"
  shows "length (rIntegrationPoint s') \<le> length (rIntegrationPoint s)"
    and "length (prev_solution s') \<le> max (length (prev_solution s)) (length (rIntegrationPoint s))"
    and "number_iterations s' \<noteq> 0"
    and "rounds s' = rounds s + 1"
    and "point_removed s' \<Longrightarrow>
           length (rIntegrationPoint s') < length (rIntegrationPoint s) \<and>
           4 < length (rIntegrationPoint s)"
    and "\<not> point_removed s' \<Longrightarrow> \<not> pe_continue rParam s'"
proof -
  obtain pts res where mf: "MomentFitting1 nn rParam (rIntegrationPoint s) = (pts, res)"
    by (cases "MomentFitting1 nn rParam (rIntegrationPoint s)")
  then have len: "length pts = length (rIntegrationPoint s)"
    using length_MomentFitting1 [of nn rParam "rIntegrationPoint s"] by simp
  obtain mi mn mx where mm: "min_max_weights pts = (mi, mn, mx)"
    by (cases "min_max_weights pts")
  obtain pts2 k where eb: "erase_below (EPS1 c * mx) 0 pts 0 = (pts2, k)"
    by (cases "erase_below (EPS1 c * mx) 0 pts 0")
  from erase_below_length [OF eb] have l2: "length pts2 + k = length pts"
    by simp
  have l4: "4 < length pts" if "0 < k"
  proof (rule ccontr)
    assume "\<not> 4 < length pts"
    then have "erase_below (EPS1 c * mx) 0 pts 0 = (pts, 0)"
      by (intro erase_below_small) simp
    with eb that show False by simp
  qed
  have l3: "length (erase_at mi pts2) = length pts2 - 1" if "k = 0" "4 < length pts2"
  proof -
    from that l2 have "pts \<noteq> []" "length pts2 = length pts" by auto
    with min_value_it_in_range [OF mm] show ?thesis
      by (simp add: length_erase_at)
  qed
  have s': "s' =
    (if res < MomentFittingResidual rParam then
       (let pts3 = (if k = 0 \<and> length pts2 > 4 then erase_at mi pts2 else pts2);
            removed = (k \<noteq> 0 \<or> length pts2 > 4)
        in s\<lparr>rIntegrationPoint := pts3, global_residual := res, prev_residual := res,
              point_removed := removed, prev_solution := pts,
              number_iterations :=
                (if length pts3 \<le> 4 \<and> \<not> removed then maximum_iteration + 10
                 else number_iterations s) + 1,
              rounds := rounds s + 1\<rparr>)
     else s\<lparr>rIntegrationPoint := pts, global_residual := res, point_removed := False,
             number_iterations := number_iterations s + 1, rounds := rounds s + 1\<rparr>)"
    using assms mf mm eb by (cases "res < MomentFittingResidual rParam") (auto simp: pe_round_def Let_def)
  show "length (rIntegrationPoint s') \<le> length (rIntegrationPoint s)"
    using s' len l2 l3 by (auto simp: Let_def)
  show "length (prev_solution s') \<le> max (length (prev_solution s)) (length (rIntegrationPoint s))"
    using s' len by (auto simp: Let_def)
  show "number_iterations s' \<noteq> 0"
    using s' by (auto simp: Let_def)
  show "rounds s' = rounds s + 1"
    using s' by (auto simp: Let_def)
  show "length (rIntegrationPoint s') < length (rIntegrationPoint s) \<and>
        4 < length (rIntegrationPoint s)" if "point_removed s'"
    using that s' len l2 l3 l4 by (auto simp: Let_def split: if_splits)
  show "\<not> pe_continue rParam s'" if "\<not> point_removed s'"
    using that s' by (auto simp: Let_def pe_continue_def maximum_iteration_def split: if_splits)
qed

lemma pe_loop_later:
  "number_iterations s \<noteq> 0 \<Longrightarrow> pe_loop c nn rParam s = Inr s' \<Longrightarrow>
   rounds s' \<le> rounds s + (length (rIntegrationPoint s) - 4) + 1 \<and>
   length (rIntegrationPoint s') \<le> length (rIntegrationPoint s) \<and>
   length (prev_solution s') \<le> max (length (prev_solution s)) (length (rIntegrationPoint s))"
proof (induction c nn rParam s rule: pe_loop.induct)
  case (1 c nn rParam s)
  show ?case
  proof (cases "pe_continue rParam s")
    case False
    with "1.prems" show ?thesis by (simp add: pe_loop.simps [of c nn rParam s])
  next
    case True
    with "1.prems" obtain s1 where r: "pe_round c nn rParam s = Inr s1"
      and l: "pe_loop c nn rParam s1 = Inr s'"
      by (auto simp: pe_loop.simps [of c nn rParam s] split: sum.splits)
    note later = pe_round_later [OF "1.prems"(1) r]
    show ?thesis
    proof (cases "point_removed s1")
      case True
      from "1.IH" [OF \<open>pe_continue rParam s\<close> r later(3) l] later(1,2,4) later(5) [OF True]
      show ?thesis by auto
    next
      case False
      from later(6) [OF this] l have "s' = s1" by (simp add: pe_loop.simps [of c nn rParam s1])
      with later(1,2,4) show ?thesis by auto
    qed
  qed
qed

lemma pe_loop_init:
  assumes "pe_loop c nn rParam (pe_init c pts) = Inr s'"
  shows "rounds s' \<le> max 2 (number_of_functions rParam - 2)"
    and "MIND c < MomentFittingResidual rParam \<Longrightarrow>
         length (rIntegrationPoint s') \<le> number_of_functions rParam \<and>
         length (prev_solution s') \<le> number_of_functions rParam"
proof -
  let ?s0 = "pe_init c pts"
  have both: "rounds s' \<le> max 2 (number_of_functions rParam - 2) \<and>
    (MIND c < MomentFittingResidual rParam \<longrightarrow>
         length (rIntegrationPoint s') \<le> number_of_functions rParam \<and>
         length (prev_solution s') \<le> number_of_functions rParam)"
  proof (cases "pe_continue rParam ?s0")
    case False
    with assms have "s' = ?s0" by (simp add: pe_loop.simps [of c nn rParam ?s0])
    with False show ?thesis
      by (auto simp: pe_init_def pe_continue_def maximum_iteration_def)
  next
    case True
    with assms obtain s1 where r: "pe_round c nn rParam ?s0 = Inr s1"
      and l: "pe_loop c nn rParam s1 = Inr s'"
      by (auto simp: pe_loop.simps [of c nn rParam ?s0] split: sum.splits)
    have ni: "number_iterations ?s0 = 0" by (simp add: pe_init_def)
    note first = pe_round_first [OF ni r]
    from first(3) have "number_iterations s1 \<noteq> 0" by simp
    from pe_loop_later [OF this l] first(1,2,4) show ?thesis
      by (auto simp: pe_init_def)
  qed
  from both show "rounds s' \<le> max 2 (number_of_functions rParam - 2)" by simp
  from both show "length (rIntegrationPoint s') \<le> number_of_functions rParam \<and>
         length (prev_solution s') \<le> number_of_functions rParam"
    if "MIND c < MomentFittingResidual rParam" using that by simp
qed






lemma PointElimination_size:
  assumes "MIND c < MomentFittingResidual rParam"
    and "PointElimination c nn rParam pts [] = Inr r"
  shows "length (pe_reduced_points r) \<le> number_of_functions rParam"
proof -
  from assms(2) obtain s where l: "pe_loop c nn rParam (pe_init c pts) = Inr s"
    and "pe_reduced_points r = filter (\<lambda>point. \<not> Weight point < EPS4 c) (prev_solution s) \<or>
         pe_reduced_points r = filter (\<lambda>point. \<not> Weight point < EPS4 c) (rIntegrationPoint s)"
    by (auto simp: PointElimination_def split: sum.splits if_splits)
  moreover have "length (filter P xs) \<le> length xs" for P and xs :: "IntegrationPoint list"
    by simp
  ultimately show ?thesis
    using pe_loop_init(2) [OF l assms(1)] le_trans by metis
qed

lemma PointElimination_weights:
  assumes "PointElimination c nn rParam pts old = Inr r"
  shows "\<forall>p\<in>set (pe_reduced_points r). EPS4 c \<le> Weight p"
  using assms by (auto simp: PointElimination_def split: sum.splits if_splits)

lemma cipt_body_facts:
  assumes "cipt_body c nn ops rParam s = Inr s'"
  shows "point_distribution_factor s' = point_distribution_factor s * 2"
    and "\<forall>p\<in>set (element_points s'). EPS4 c \<le> Weight p"
    and "residual s' > 1 / 100 \<Longrightarrow> element_points s' = []"
    and "MIND c < MomentFittingResidual rParam \<Longrightarrow>
         length (element_points s') \<le> number_of_functions rParam"
proof -
  from assms obtain rOctree seeded r where
    pe: "PointElimination c nn rParam (seeded @ element_points s) [] = Inr r"
    and s': "s' = s\<lparr>residual := pe_residual r,
                      iteration := iteration s + 1,
                      point_distribution_factor := point_distribution_factor s * 2,
                      integration_points := pe_candidates r,
                      element_points :=
                        (if pe_residual r > 1 / 100 then [] else pe_reduced_points r),
                      octree := rOctree\<rparr>"
    by (auto simp: cipt_body_def Let_def split: option.splits sum.splits prod.splits)
  from s' show "point_distribution_factor s' = point_distribution_factor s * 2" by simp
  from s' PointElimination_weights [OF pe]
  show "\<forall>p\<in>set (element_points s'). EPS4 c \<le> Weight p" by simp
  from s' show "element_points s' = []" if "residual s' > 1 / 100" using that by simp
  from s' PointElimination_size [OF _ pe]
  show "length (element_points s') \<le> number_of_functions rParam"
    if "MIND c < MomentFittingResidual rParam" using that by simp
qed

lemma cipt_loop_invariant:
  assumes step: "\<And>s s'. I s \<Longrightarrow> cipt_body c nn ops rParam s = Inr s' \<Longrightarrow> I s'"
  shows "I s0 \<Longrightarrow> cipt_loop c nn ops rParam s0 = Inr s \<Longrightarrow> I s"
  using step
proof (induction c nn ops rParam s0 rule: cipt_loop.induct)
  case (1 c nn ops rParam s0)
  have I0: "I s0" and run: "cipt_loop c nn ops rParam s0 = Inr s"
    and st: "\<And>s s'. I s \<Longrightarrow> cipt_body c nn ops rParam s = Inr s' \<Longrightarrow> I s'"
    using "1.prems" by blast+
  show ?case
  proof (cases "residual s0 > MomentFittingResidual rParam \<and> iteration s0 < 4")
    case False
    with I0 run show ?thesis
      by (simp add: cipt_loop.simps [of c nn ops rParam s0])
  next
    case True
    with run obtain s1 where b: "cipt_body c nn ops rParam s0 = Inr s1"
      and l: "cipt_loop c nn ops rParam s1 = Inr s"
      by (auto simp: cipt_loop.simps [of c nn ops rParam s0] split: sum.splits)
    from st [OF I0 b] have "I s1" .
    from "1.IH" [OF True b this l st] show ?thesis
      by simp
  qed
qed

lemma cipt_loop_exit:
  "cipt_loop c nn ops rParam s0 = Inr s \<Longrightarrow>
   \<not> (residual s > MomentFittingResidual rParam \<and> iteration s < 4)"
proof (induction c nn ops rParam s0 rule: cipt_loop.induct)
  case (1 c nn ops rParam s0)
  show ?case
  proof (cases "residual s0 > MomentFittingResidual rParam \<and> iteration s0 < 4")
    case False
    with "1.prems" show ?thesis
      by (simp add: cipt_loop.simps [of c nn ops rParam s0])
  next
    case True
    with "1.prems" obtain s1 where b: "cipt_body c nn ops rParam s0 = Inr s1"
      and l: "cipt_loop c nn ops rParam s1 = Inr s"
      by (auto simp: cipt_loop.simps [of c nn ops rParam s0] split: sum.splits)
    from "1.IH" [OF True b l] show ?thesis .
  qed
qed

lemma cipt_loop_count:
  "cipt_loop c nn ops rParam s0 = Inr s \<Longrightarrow> iteration s0 \<le> 4 \<Longrightarrow>
   iteration s0 \<le> iteration s \<and> iteration s \<le> 4 \<and>
   point_distribution_factor s =
     point_distribution_factor s0 * 2 ^ (iteration s - iteration s0)"
proof (induction c nn ops rParam s0 rule: cipt_loop.induct)
  case (1 c nn ops rParam s0)
  show ?case
  proof (cases "residual s0 > MomentFittingResidual rParam \<and> iteration s0 < 4")
    case False
    with "1.prems" show ?thesis
      by (simp add: cipt_loop.simps [of c nn ops rParam s0])
  next
    case True
    with "1.prems" obtain s1 where b: "cipt_body c nn ops rParam s0 = Inr s1"
      and l: "cipt_loop c nn ops rParam s1 = Inr s"
      by (auto simp: cipt_loop.simps [of c nn ops rParam s0] split: sum.splits)
    have i1: "iteration s1 = iteration s0 + 1"
      by (rule cipt_body_iteration [OF b])
    with True have "iteration s1 \<le> 4" by simp
    from "1.IH" [OF True b l this] i1 cipt_body_facts(1) [OF b]
    have *: "iteration s0 + 1 \<le> iteration s" "iteration s \<le> 4"
      "point_distribution_factor s =
         point_distribution_factor s0 * 2 * 2 ^ (iteration s - (iteration s0 + 1))"
      by simp_all
    from *(1) have "iteration s - iteration s0 = Suc (iteration s - (iteration s0 + 1))"
      by simp
    with * show ?thesis by simp
  qed
qed

lemma failing_run:
  "CreateIntegrationPointsTrimmed sample_constants failing_solver growing_octree
     sample_parameters 0 []
   = Inr \<lparr>residual = 1 / 8, iteration = 4, point_distribution_factor = 16,
          integration_points = map (\<lambda>x. \<lparr>Point = (x, 0, 0), Weight = 1\<rparr>) [1, 0, 1, 0, 1, 1, 0, 0],
          element_points = [], octree = 8\<rparr>"
  by code_simp

lemma fitting_run:
  "CreateIntegrationPointsTrimmed sample_constants sample_solver sample_octree
     sample_parameters 0 []
   = Inr \<lparr>residual = 0, iteration = 1, point_distribution_factor = 2,
          integration_points = replicate 4 (ip 1),
          element_points = replicate 4 (ip 1), octree = 1\<rparr>"
  by code_simp


lemma CreateIntegrationPointsTrimmed_facts:
  assumes "CreateIntegrationPointsTrimmed c nn ops rParam rOctree [] = Inr s"
  shows "\<forall>p\<in>set (element_points s). EPS4 c \<le> Weight p"
    and "residual s > 1 / 100 \<Longrightarrow> element_points s = []"
    and "MIND c < MomentFittingResidual rParam \<Longrightarrow>
         length (element_points s) \<le> number_of_functions rParam"
    and "iteration s \<le> 4"
    and "point_distribution_factor s = PointDistributionFactor rParam * 2 ^ iteration s"
    and "iteration s < 4 \<Longrightarrow> residual s \<le> MomentFittingResidual rParam"
proof -
  let ?s0 = "\<lparr>residual = MAXD c, iteration = 0,
        point_distribution_factor = PointDistributionFactor rParam,
        integration_points = [], element_points = [], octree = rOctree\<rparr>"
  from assms have run: "cipt_loop c nn ops rParam ?s0 = Inr s"
    by (simp add: CreateIntegrationPointsTrimmed_def)
  show "\<forall>p\<in>set (element_points s). EPS4 c \<le> Weight p"
    by (rule cipt_loop_invariant [where I = "\<lambda>s. \<forall>p\<in>set (element_points s). EPS4 c \<le> Weight p",
          OF _ _ run]) (simp_all add: cipt_body_facts(2))
  show "element_points s = []" if "residual s > 1 / 100"
    using that
    by (rule cipt_loop_invariant [where I = "\<lambda>s. residual s > 1 / 100 \<longrightarrow> element_points s = []",
          OF _ _ run, rule_format, rotated 2]) (simp_all add: cipt_body_facts(3))
  show "length (element_points s) \<le> number_of_functions rParam"
    if "MIND c < MomentFittingResidual rParam"
    by (rule cipt_loop_invariant [where I = "\<lambda>s. length (element_points s) \<le> number_of_functions rParam",
          OF _ _ run]) (simp_all add: cipt_body_facts(4) [OF _ that])
  from cipt_loop_count [OF run] show "iteration s \<le> 4"
    and "point_distribution_factor s = PointDistributionFactor rParam * 2 ^ iteration s"
    by simp_all
  from cipt_loop_exit [OF run] show "residual s \<le> MomentFittingResidual rParam" if "iteration s < 4"
    using that by simp
qed

lemma AssembleIPs_weights:
  assumes "\<forall>order. \<forall>q\<in>set (gauss order Method). 0 < snd q"
    and "nondegenerate lower upper"
  shows "\<forall>p\<in>set (AssembleIPs gauss lower upper rOrder Method). 0 < Weight p"
proof -
  obtain l0 l1 l2 u0 u1 u2 order_u order_v order_w
    where b: "lower = (l0, l1, l2)" "upper = (u0, u1, u2)" "rOrder = (order_u, order_v, order_w)"
    by (cases lower; cases upper; cases rOrder) auto
  with assms(2) have len: "0 < \<bar>u0 - l0\<bar>" "0 < \<bar>u1 - l1\<bar>" "0 < \<bar>u2 - l2\<bar>"
    by (auto simp: nondegenerate_def)
  show ?thesis
  proof
    fix p assume "p \<in> set (AssembleIPs gauss lower upper rOrder Method)"
    then obtain pu pv pw where
      "pu \<in> set (gauss order_u Method)" "pv \<in> set (gauss order_v Method)"
      "pw \<in> set (gauss order_w Method)"
      "Weight p = snd pu * \<bar>u0 - l0\<bar> * snd pv * \<bar>u1 - l1\<bar> * snd pw * \<bar>u2 - l2\<bar>"
      by (auto simp: AssembleIPs_def b Let_def)
    with assms(1) len show "0 < Weight p"
      by simp
  qed
qed

section \<open>Properties of the pipeline\<close>

lemma compute_element_keeps:
  assumes "\<forall>e\<in>set container. IsTrimmed e \<longrightarrow> IntegrationPoints e \<noteq> []"
    and "compute_element env index container = Inr container'"
  shows "\<forall>e\<in>set container'. IsTrimmed e \<longrightarrow> IntegrationPoints e \<noteq> []"
  using assms
  by (auto simp: compute_element_def Let_def split: if_splits option.splits sum.splits)

lemma compute_loop_keeps:
  "\<forall>e\<in>set container. IsTrimmed e \<longrightarrow> IntegrationPoints e \<noteq> [] \<Longrightarrow>
   compute_loop env indices container = Inr container' \<Longrightarrow>
   \<forall>e\<in>set container'. IsTrimmed e \<longrightarrow> IntegrationPoints e \<noteq> []"
proof (induction indices arbitrary: container)
  case Nil
  then show ?case by simp
next
  case (Cons index indices)
  from Cons.prems(2) obtain c1 where 1: "compute_element env index container = Inr c1"
    and 2: "compute_loop env indices c1 = Inr container'"
    by (auto split: sum.splits)
  from Cons.IH [OF compute_element_keeps [OF Cons.prems(1) 1] 2] show ?case .
qed

text \<open>
  C4. When the residual returned by the point elimination exceeds \<open>1e-2\<close>, the element's
  integration points are cleared, in each pass of the outer loop and hence when
  \<open>CreateIntegrationPointsTrimmed\<close> returns for a fresh element; and \<open>Compute\<close> adds no
  trimmed element without integration points to the element container: a trimmed cell
  whose moment fitting leaves no point leaves the container as it was.
\<close>

theorem C4_high_residual_clears_and_empty_is_skipped:
  "(cipt_body c nn ops rParam s0 = Inr s1 \<longrightarrow> residual s1 > 1 / 100 \<longrightarrow> element_points s1 = []) \<and>
   (CreateIntegrationPointsTrimmed c nn ops rParam rOctree [] = Inr s \<longrightarrow>
      residual s > 1 / 100 \<longrightarrow> element_points s = []) \<and>
   (Compute env = Inr container \<longrightarrow>
      (\<forall>e\<in>set container. IsTrimmed e \<longrightarrow> IntegrationPoints e \<noteq> [])) \<and>
   (embedding_flag env \<longrightarrow> p_classifications env index = Trimmed \<longrightarrow>
      pGetTrimmedDomain env (GetBoundingBoxXYZFromIndex env index) = Some d \<longrightarrow>
      TrimmedAssembleIPs env
        \<lparr>ElementId = index + 1, BoundsXYZ = GetBoundingBoxXYZFromIndex env index,
         BoundsUVW = GetBoundingBoxUVWFromIndex env index, IsTrimmed = True,
         pTrimmedDomain = Some d, IntegrationPoints = []\<rparr> = Inr [] \<longrightarrow>
      compute_element env index elements = Inr elements)"
proof (intro conjI impI)
  assume "cipt_body c nn ops rParam s0 = Inr s1" and "residual s1 > 1 / 100"
  then show "element_points s1 = []"
    by (rule cipt_body_facts(3))
next
  assume "CreateIntegrationPointsTrimmed c nn ops rParam rOctree [] = Inr s"
    and "residual s > 1 / 100"
  then show "element_points s = []"
    by (rule CreateIntegrationPointsTrimmed_facts(2))
next
  assume "Compute env = Inr container"
  then have "compute_loop env [0..<global_number_of_elements env] [] = Inr container"
    by (simp add: Compute_def)
  from compute_loop_keeps [OF _ this]
  show "\<forall>e\<in>set container. IsTrimmed e \<longrightarrow> IntegrationPoints e \<noteq> []"
    by simp
next
  assume "embedding_flag env" "p_classifications env index = Trimmed"
    "pGetTrimmedDomain env (GetBoundingBoxXYZFromIndex env index) = Some d"
    "TrimmedAssembleIPs env
        \<lparr>ElementId = index + 1, BoundsXYZ = GetBoundingBoxXYZFromIndex env index,
         BoundsUVW = GetBoundingBoxUVWFromIndex env index, IsTrimmed = True,
         pTrimmedDomain = Some d, IntegrationPoints = []\<rparr> = Inr []"
  then show "compute_element env index elements = Inr elements"
    by (simp add: compute_element_def)
qed

lemma sample_env_run:
  "Compute sample_env =
     Inr [\<lparr>ElementId = 1, BoundsXYZ = ((0, 0, 0), (1, 1, 1)), BoundsUVW = ((0, 0, 0), (1, 1, 1)),
            IsTrimmed = False, pTrimmedDomain = None,
            IntegrationPoints =
              map (\<lambda>p. \<lparr>Point = p, Weight = 1 / 8\<rparr>)
                [(1 / 4, 1 / 4, 1 / 4), (1 / 4, 1 / 4, 3 / 4), (1 / 4, 3 / 4, 1 / 4),
                 (1 / 4, 3 / 4, 3 / 4), (3 / 4, 1 / 4, 1 / 4), (3 / 4, 1 / 4, 3 / 4),
                 (3 / 4, 3 / 4, 1 / 4), (3 / 4, 3 / 4, 3 / 4)]\<rparr>,
          \<lparr>ElementId = 3, BoundsXYZ = ((2, 0, 0), (3, 1, 1)), BoundsUVW = ((2, 0, 0), (3, 1, 1)),
            IsTrimmed = True, pTrimmedDomain = Some 0,
            IntegrationPoints = [ip 1, ip 1]\<rparr>]"
  by code_simp

theorem C4_high_residual_clears_and_empty_is_skipped_witness:
  "CreateIntegrationPointsTrimmed sample_constants failing_solver growing_octree
     sample_parameters 0 []
   = Inr \<lparr>residual = 1 / 8, iteration = 4, point_distribution_factor = 16,
          integration_points = map (\<lambda>x. \<lparr>Point = (x, 0, 0), Weight = 1\<rparr>) [1, 0, 1, 0, 1, 1, 0, 0],
          element_points = [], octree = 8\<rparr> \<and>
   (1 / 8 :: real) > 1 / 100 \<and>
   map ElementId (projr (Compute sample_env)) = [1, 3] \<and>
   list_all (\<lambda>e. \<not> IsTrimmed e \<or> IntegrationPoints e \<noteq> []) (projr (Compute sample_env)) \<and>
   compute_element sample_env 1 [] = Inr []"
proof -
  let ?s = "\<lparr>residual = 1 / 8, iteration = 4, point_distribution_factor = 16 :: 64 word,
          integration_points = map (\<lambda>x. \<lparr>Point = (x, 0, 0), Weight = 1\<rparr>) [1, 0, 1, 0, 1, 1, 0, 0],
          element_points = [], octree = 8 :: nat\<rparr>"
  note inst = C4_high_residual_clears_and_empty_is_skipped
    [of sample_constants failing_solver growing_octree sample_parameters _ _ 0 "?s"
        sample_env "projr (Compute sample_env)" 1 0 "[]"]
  have run: "Compute sample_env = Inr (projr (Compute sample_env))"
    by (simp add: sample_env_run)
  from inst run have all: "\<forall>e\<in>set (projr (Compute sample_env)). IsTrimmed e \<longrightarrow> IntegrationPoints e \<noteq> []"
    by blast
  have skip: "compute_element sample_env 1 [] = Inr []"
    using inst by (simp add: sample_env_def)
  from all have "list_all (\<lambda>e. \<not> IsTrimmed e \<or> IntegrationPoints e \<noteq> []) (projr (Compute sample_env))"
    by (auto simp: list_all_iff)
  moreover have "map ElementId (projr (Compute sample_env)) = [1, 3]"
    by (simp add: sample_env_run)
  ultimately show ?thesis
    using failing_run skip by simp
qed















text \<open>
  C1. Every integration point written to an element has a strictly positive weight. For a
  trimmed cell, \<open>PointElimination\<close> erases every point of weight below \<open>EPS4\<close> before it
  returns, and \<open>CreateIntegrationPointsTrimmed\<close> leaves on a fresh element only such points
  or none; this needs \<open>EPS4 > 0\<close>. For an inside cell, \<open>AssembleIPs\<close> gives every point the
  product of three one-dimensional weights and the three edge lengths; this needs the table
  of one-dimensional rules to have positive weights. In both cases the box must have
  non-zero extent along each axis (with a degenerate box the source divides by zero or
  emits the weight zero).
\<close>

theorem C1_emitted_weights_positive:
  assumes "0 < EPS4 c"
    and "nondegenerate (LowerBound rParam) (UpperBound rParam)"
    and "\<forall>order. \<forall>q\<in>set (gauss order Method). 0 < snd q"
    and "nondegenerate lower upper"
  shows "(PointElimination c nn rParam pts old = Inr r \<longrightarrow>
            (\<forall>p\<in>set (pe_reduced_points r). 0 < Weight p)) \<and>
         (CreateIntegrationPointsTrimmed c nn ops rParam rOctree [] = Inr s \<longrightarrow>
            (\<forall>p\<in>set (element_points s). 0 < Weight p)) \<and>
         (\<forall>p\<in>set (AssembleIPs gauss lower upper rOrder Method). 0 < Weight p)"
proof (intro conjI impI)
  assume "PointElimination c nn rParam pts old = Inr r"
  from PointElimination_weights [OF this] assms(1)
  show "\<forall>p\<in>set (pe_reduced_points r). 0 < Weight p"
    by fastforce
next
  assume "CreateIntegrationPointsTrimmed c nn ops rParam rOctree [] = Inr s"
  from CreateIntegrationPointsTrimmed_facts(1) [OF this] assms(1)
  show "\<forall>p\<in>set (element_points s). 0 < Weight p"
    by fastforce
next
  from assms(3,4) show "\<forall>p\<in>set (AssembleIPs gauss lower upper rOrder Method). 0 < Weight p"
    by (rule AssembleIPs_weights)
qed

theorem C1_emitted_weights_positive_witness:
  "0 < EPS4 sample_constants \<and>
   nondegenerate (LowerBound sample_parameters) (UpperBound sample_parameters) \<and>
   list_all (\<lambda>q. 0 < snd q) (unit_gauss 1 ()) \<and>
   nondegenerate (0, 0, 0) (1, 1, 1) \<and>
   map Weight (element_points (projr (CreateIntegrationPointsTrimmed sample_constants
      sample_solver sample_octree sample_parameters 0 []))) = [1, 1, 1, 1] \<and>
   list_all (\<lambda>p. 0 < Weight p) (element_points (projr (CreateIntegrationPointsTrimmed
      sample_constants sample_solver sample_octree sample_parameters 0 []))) \<and>
   list_all (\<lambda>p. 0 < Weight p) (AssembleIPs unit_gauss (0, 0, 0) (1, 1, 1) (1, 1, 1) ())"
proof -
  have e: "0 < EPS4 sample_constants"
    by (simp add: sample_constants_def)
  have b: "nondegenerate (LowerBound sample_parameters) (UpperBound sample_parameters)"
    by (simp add: nondegenerate_def sample_parameters_def)
  have g: "\<forall>order. \<forall>q\<in>set (unit_gauss order ()). 0 < snd q"
    by (simp add: unit_gauss_def)
  have n: "nondegenerate (0, 0, 0) (1, 1, 1)"
    by (simp add: nondegenerate_def)
  let ?s = "projr (CreateIntegrationPointsTrimmed sample_constants sample_solver
      sample_octree sample_parameters 0 [])"
  have run: "CreateIntegrationPointsTrimmed sample_constants sample_solver sample_octree
      sample_parameters 0 [] = Inr ?s"
    by (simp add: fitting_run)
  from C1_emitted_weights_positive [where gauss = unit_gauss and Method = "()"
      and c = sample_constants and rParam = sample_parameters and lower = "(0, 0, 0)"
      and upper = "(1, 1, 1)" and nn = sample_solver and ops = sample_octree and rOctree = 0
      and s = "?s" and rOrder = "(1, 1, 1)", OF e b g n] run
  have "\<forall>p\<in>set (element_points ?s). 0 < Weight p"
    and "\<forall>p\<in>set (AssembleIPs unit_gauss (0, 0, 0) (1, 1, 1) (1, 1, 1) ()). 0 < Weight p"
    by blast+
  then have "list_all (\<lambda>p. 0 < Weight p) (element_points ?s)"
    and "list_all (\<lambda>p. 0 < Weight p) (AssembleIPs unit_gauss (0, 0, 0) (1, 1, 1) (1, 1, 1) ())"
    by (simp_all add: list_all_iff)
  moreover have "map Weight (element_points ?s) = [1, 1, 1, 1]"
    by (simp add: fitting_run ip_def numeral_eq_Suc)
  moreover have "list_all (\<lambda>q. 0 < snd q) (unit_gauss 1 ())"
    by (simp add: unit_gauss_def)
  ultimately show ?thesis
    using e b n by simp
qed

section \<open>Properties of the STL loader\<close>

lemma find_from_sublist: "find_from needle hay i \<noteq> None \<longleftrightarrow> sublist needle hay"
  by (induction hay arbitrary: i) (auto simp: sublist_Cons_right)

lemma find_sublist: "find message needle \<noteq> None \<longleftrightarrow> sublist needle message"
  using find_from_sublist [of needle message 0] by (simp add: find_def)

lemma STLIsInASCIIFormat_iff: "STLIsInASCIIFormat file \<longleftrightarrow> header_says_ascii 256 file"
  unfolding STLIsInASCIIFormat_def header_says_ascii_def Let_def find_sublist by blast

text \<open>
  C7 as stated fails: the loader looks at the first 256 bytes, not at the first 80. A file
  whose keywords start after eighty blanks is taken for ASCII although its first 80 bytes
  contain none of them.
\<close>

theorem C7_first_80_bytes_counterexample:
  "STLIsInASCIIFormat indented_stl \<and> \<not> header_says_ascii 80 indented_stl \<and>
   ReadMeshFromSTL (\<lambda>file. Ascii) (\<lambda>file. Binary) indented_stl = Ascii"
proof -
  have a: "STLIsInASCIIFormat indented_stl"
    by code_simp
  have b: "\<not> header_says_ascii 80 indented_stl"
    by code_simp
  from a b show ?thesis
    by (simp add: ReadMeshFromSTL_def)
qed

text \<open>
  C7, amended. The loader decides between the two parsers by the first at most 256 bytes
  of the file alone: the file is parsed as ASCII exactly when these bytes contain,
  case-insensitively, the substrings \<open>solid\<close>, \<open>facet\<close>, \<open>normal\<close> and a newline, and as
  binary otherwise.
\<close>

theorem C7_format_detection_256:
  "(STLIsInASCIIFormat file \<longleftrightarrow> header_says_ascii 256 file) \<and>
   (take 256 file = take 256 file' \<longrightarrow> STLIsInASCIIFormat file = STLIsInASCIIFormat file') \<and>
   ReadMeshFromSTL (\<lambda>file. Ascii) (\<lambda>file. Binary) file =
     (if header_says_ascii 256 file then Ascii else Binary)"
proof (intro conjI impI)
  show "STLIsInASCIIFormat file \<longleftrightarrow> header_says_ascii 256 file"
    by (rule STLIsInASCIIFormat_iff)
  show "STLIsInASCIIFormat file = STLIsInASCIIFormat file'" if "take 256 file = take 256 file'"
    using that by (simp add: STLIsInASCIIFormat_def)
  show "ReadMeshFromSTL (\<lambda>file. Ascii) (\<lambda>file. Binary) file =
     (if header_says_ascii 256 file then Ascii else Binary)"
    by (simp add: ReadMeshFromSTL_def STLIsInASCIIFormat_iff)
qed

theorem C7_format_detection_256_witness:
  "header_says_ascii 256 plain_stl \<and>
   ReadMeshFromSTL (\<lambda>file. Ascii) (\<lambda>file. Binary) plain_stl = Ascii \<and>
   take 256 long_stl = take 256 (long_stl @ ''endsolid'') \<and>
   STLIsInASCIIFormat long_stl = STLIsInASCIIFormat (long_stl @ ''endsolid'')"
proof -
  have h: "header_says_ascii 256 plain_stl"
    by code_simp
  have t: "take 256 long_stl = take 256 (long_stl @ ''endsolid'')"
    by (simp add: long_stl_def plain_stl_def)
  from C7_format_detection_256 [of plain_stl] h
  have "ReadMeshFromSTL (\<lambda>file. Ascii) (\<lambda>file. Binary) plain_stl = Ascii"
    by simp
  moreover from C7_format_detection_256 [of long_stl "long_stl @ ''endsolid''"] t
  have "STLIsInASCIIFormat long_stl = STLIsInASCIIFormat (long_stl @ ''endsolid'')"
    by blast
  ultimately show ?thesis
    using h t by simp
qed



















section \<open>Rounds of the point elimination\<close>

























end
